theory Spec2Isabelle
  imports Main "HOL-Library.AList"
begin

section \<open>Data model (\<^verbatim>\<open>supabase/models\<close>, as the hooks and services use it)\<close>

text \<open>
  Modelled from the spec: the declarations of \<^verbatim>\<open>Board\<close>, \<^verbatim>\<open>Column\<close>, \<^verbatim>\<open>Task\<close> and
  \<^verbatim>\<open>ColumnWithTasks\<close> (\<^verbatim>\<open>lib/supabase/models\<close>) are not among the sources. The rows carry
  the fields of the spec's data model, under the names the services and hooks use for
  them when they insert, select and read; field names are prefixed (\<open>b_\<close>, \<open>c_\<close>,
  \<open>t_\<close>) because several rows share the source names \<^verbatim>\<open>id\<close>, \<^verbatim>\<open>title\<close>, \<^verbatim>\<open>sort_order\<close>.
  Identities and timestamps are strings. A field the source reads with \<^verbatim>\<open>?? default\<close>
  is an option (\<open>None\<close> is \<^verbatim>\<open>null\<close>).
\<close>

type_synonym ident = string
type_synonym timestamp = string

datatype priority = Low | Medium | High

record Board =
  b_id :: ident
  b_title :: string
  b_description :: "string option"
  b_color :: string
  b_user_id :: ident
  b_created_at :: timestamp
  b_updated_at :: timestamp

record Column =
  c_id :: ident
  c_board_id :: ident
  c_title :: string
  c_sort_order :: "int option"
  c_user_id :: ident
  c_created_at :: timestamp

record Task =
  t_id :: ident
  t_column_id :: ident
  t_title :: string
  t_description :: "string option"
  t_assignee :: "string option"
  t_due_date :: "string option"
  t_priority :: "priority option"
  t_sort_order :: "int option"
  t_created_at :: timestamp
  t_updated_at :: timestamp

text \<open>\<^verbatim>\<open>ColumnWithTasks\<close>: a column row extended by its embedded task list.\<close>

record ColumnWithTasks = Column +
  tasks :: "Task list"

definition withTasks :: "Column \<Rightarrow> Task list \<Rightarrow> ColumnWithTasks" where
  \<comment> \<open>\<^verbatim>\<open>{ ...column, tasks }\<close>\<close>
  "withTasks c ts = Column.extend c (ColumnWithTasks.fields ts)"

definition withoutTasks :: "ColumnWithTasks \<Rightarrow> Column" where
  \<comment> \<open>\<^verbatim>\<open>({ tasks, ...col }) => col\<close>\<close>
  "withoutTasks c = Column.truncate c"

text \<open>Insert payloads: \<^verbatim>\<open>Omit<Board, "id" | "created_at" | "updated_at">\<close> and its siblings.\<close>

record BoardInsert =
  bi_title :: string
  bi_description :: "string option"
  bi_color :: string
  bi_user_id :: ident

record ColumnInsert =
  ci_title :: string
  ci_sort_order :: int
  ci_board_id :: ident
  ci_user_id :: ident

record TaskInsert =
  ti_title :: string
  ti_description :: "string option"
  ti_assignee :: "string option"
  ti_due_date :: "string option"
  ti_priority :: priority
  ti_sort_order :: int
  ti_column_id :: ident

text \<open>
  \<^verbatim>\<open>Partial<Task>\<close> and \<^verbatim>\<open>Partial<Board>\<close> are plain JavaScript objects: a list of
  entries in insertion order, as \<^verbatim>\<open>Object.entries\<close> yields them. A key can be present
  with the value \<^verbatim>\<open>undefined\<close>.
\<close>

datatype jsval = Undefined | Null | Str string | Num int

type_synonym obj = "(string \<times> jsval) list"

definition assign :: "string \<Rightarrow> jsval \<Rightarrow> obj \<Rightarrow> obj" where
  \<comment> \<open>\<^verbatim>\<open>out[key] = value\<close>\<close>
  "assign key v out = AList.update key v out"

definition spread :: "obj \<Rightarrow> obj \<Rightarrow> obj" where
  \<comment> \<open>\<^verbatim>\<open>{ ...out, ...src }\<close>: the entries of \<open>src\<close> are assigned in order.\<close>
  "spread out src = fold (\<lambda>(key, v). assign key v) src out"

definition getProp :: "obj \<Rightarrow> string \<Rightarrow> jsval" where
  \<comment> \<open>\<^verbatim>\<open>o[key]\<close>: a missing key reads as \<^verbatim>\<open>undefined\<close>.\<close>
  "getProp out key = (case map_of out key of None \<Rightarrow> Undefined | Some v \<Rightarrow> v)"

definition hasOwn :: "obj \<Rightarrow> string \<Rightarrow> bool" where
  "hasOwn out key = (key \<in> fst ` set out)"

section \<open>The store client (external) and thrown values\<close>

text \<open>
  A thrown value is either an \<^verbatim>\<open>Error\<close> instance with its message or any other value;
  the hooks tell them apart with \<^verbatim>\<open>err instanceof Error\<close>.
\<close>

datatype thrown = JsError string | NonError

definition errorMessage :: "thrown \<Rightarrow> string \<Rightarrow> string" where
  \<comment> \<open>\<^verbatim>\<open>err instanceof Error ? err.message : fallback\<close>\<close>
  "errorMessage err fallback = (case err of JsError m \<Rightarrow> m | NonError \<Rightarrow> fallback)"

text \<open>
  The Supabase client is not part of the repository. Each query chain the services build
  is one request; the client answers with \<^verbatim>\<open>{ data, error }\<close>. The world holds the
  server as an arbitrary function of the requests seen so far and the new request, the
  log of requests sent, and the clock read by \<^verbatim>\<open>new Date().toISOString()\<close>. Any
  deterministic store, with any pattern of failures, is such a function.
\<close>

datatype request =
    BoardsTouch obj ident           \<comment> \<open>\<^verbatim>\<open>from("boards").update(o).eq("id", id)\<close>\<close>
  | BoardsSelectById ident          \<comment> \<open>\<^verbatim>\<open>.select("*").eq("id", id).single()\<close>\<close>
  | BoardsInsert BoardInsert        \<comment> \<open>\<^verbatim>\<open>.insert(b).select("*").single()\<close>\<close>
  | BoardsUpdate obj ident          \<comment> \<open>\<^verbatim>\<open>.update(o).eq("id", id).select("*").single()\<close>\<close>
  | BoardsDelete ident              \<comment> \<open>\<^verbatim>\<open>.delete().eq("id", id).select("*").single()\<close>\<close>
  | ColumnsSelectBoardId ident      \<comment> \<open>\<^verbatim>\<open>from("columns").select("board_id").eq("id", id).single()\<close>\<close>
  | ColumnsSelectByBoard ident      \<comment> \<open>\<^verbatim>\<open>.select("*").eq("board_id", id).order("sort_order")\<close>\<close>
  | ColumnsInsert ColumnInsert
  | ColumnsUpdate obj ident
  | TasksSelectByBoard ident        \<comment> \<open>joined on \<^verbatim>\<open>columns.board_id\<close>, ordered by \<^verbatim>\<open>sort_order\<close>\<close>
  | TasksInsert TaskInsert
  | TasksUpdate obj ident
  | TasksDelete ident

datatype reply =
    Failed thrown                   \<comment> \<open>\<^verbatim>\<open>error\<close> is set\<close>
  | NoData                          \<comment> \<open>\<^verbatim>\<open>data\<close> is \<^verbatim>\<open>null\<close>, no error\<close>
  | BoardRow Board
  | ColumnRow Column
  | ColumnRows "Column list"
  | TaskRow Task
  | TaskRows "Task list"
  | BoardIdOf ident                 \<comment> \<open>\<^verbatim>\<open>{ board_id }\<close>\<close>

record world =
  server :: "request list \<Rightarrow> request \<Rightarrow> reply"
  log :: "request list"
  clock :: "request list \<Rightarrow> timestamp"

definition send :: "request \<Rightarrow> world \<Rightarrow> reply \<times> world" where
  "send q w = (server w (log w) q, w\<lparr>log := log w @ [q]\<rparr>)"

definition toISOString_now :: "world \<Rightarrow> timestamp" where
  "toISOString_now w = clock w (log w)"

text \<open>
  An \<^verbatim>\<open>async\<close> function is a function of the world that resolves (\<open>Inr\<close>) or rejects
  (\<open>Inl\<close>) and returns the world it leaves behind. \<open>await\<close> sequences two of them; a
  rejection skips the continuation.
\<close>

type_synonym 'a promise = "world \<Rightarrow> (thrown + 'a) \<times> world"

definition resolve :: "'a \<Rightarrow> 'a promise" where
  "resolve x = (\<lambda>w. (Inr x, w))"

definition await :: "'a promise \<Rightarrow> ('a \<Rightarrow> 'b promise) \<Rightarrow> 'b promise" where
  "await p k = (\<lambda>w. case p w of (Inl err, w1) \<Rightarrow> (Inl err, w1) | (Inr x, w1) \<Rightarrow> k x w1)"

text \<open>
  The decoders are \<^verbatim>\<open>if (error) throw error; return data as T\<close>. The real client answers
  a \<^verbatim>\<open>.single()\<close> query with a row or an error; a reply of another shape is taken as a
  failed request. A list query reads \<^verbatim>\<open>data || []\<close>.
\<close>

definition query :: "(reply \<Rightarrow> thrown + 'a) \<Rightarrow> request \<Rightarrow> 'a promise" where
  "query decode q = (\<lambda>w. case send q w of (r, w1) \<Rightarrow> (decode r, w1))"

fun errorOnly :: "reply \<Rightarrow> thrown + unit" where
  "errorOnly (Failed err) = Inl err"
| "errorOnly _ = Inr ()"

fun asBoard :: "reply \<Rightarrow> thrown + Board" where
  "asBoard (Failed err) = Inl err"
| "asBoard (BoardRow b) = Inr b"
| "asBoard _ = Inl NonError"

fun asBoardOrNull :: "reply \<Rightarrow> thrown + Board option" where
  "asBoardOrNull (Failed err) = Inl err"
| "asBoardOrNull (BoardRow b) = Inr (Some b)"
| "asBoardOrNull NoData = Inr None"
| "asBoardOrNull _ = Inl NonError"

fun asColumn :: "reply \<Rightarrow> thrown + Column" where
  "asColumn (Failed err) = Inl err"
| "asColumn (ColumnRow c) = Inr c"
| "asColumn _ = Inl NonError"

fun asColumns :: "reply \<Rightarrow> thrown + Column list" where
  "asColumns (Failed err) = Inl err"
| "asColumns (ColumnRows cs) = Inr cs"
| "asColumns NoData = Inr []"
| "asColumns _ = Inl NonError"

fun asTask :: "reply \<Rightarrow> thrown + Task" where
  "asTask (Failed err) = Inl err"
| "asTask (TaskRow t) = Inr t"
| "asTask _ = Inl NonError"

fun asTasks :: "reply \<Rightarrow> thrown + Task list" where
  "asTasks (Failed err) = Inl err"
| "asTasks (TaskRows ts) = Inr ts"
| "asTasks NoData = Inr []"
| "asTasks _ = Inl NonError"

fun asBoardId :: "reply \<Rightarrow> thrown + ident" where
  "asBoardId (Failed err) = Inl err"
| "asBoardId (BoardIdOf i) = Inr i"
| "asBoardId _ = Inl NonError"

section \<open>Services (\<^verbatim>\<open>lib/services\<close>)\<close>

definition touchBoard :: "ident \<Rightarrow> unit promise" where
  "touchBoard boardId = (\<lambda>w.
     query errorOnly (BoardsTouch [(''updated_at'', Str (toISOString_now w))] boardId) w)"

definition getBoardIdByColumnId :: "ident \<Rightarrow> ident promise" where
  "getBoardIdByColumnId columnId = query asBoardId (ColumnsSelectBoardId columnId)"

subsection \<open>\<^verbatim>\<open>boardService\<close>\<close>

definition boardService_getBoard :: "ident \<Rightarrow> Board option promise" where
  "boardService_getBoard boardId = query asBoardOrNull (BoardsSelectById boardId)"

definition boardService_createBoard :: "BoardInsert \<Rightarrow> Board promise" where
  "boardService_createBoard b = query asBoard (BoardsInsert b)"

definition boardService_updateBoard :: "ident \<Rightarrow> obj \<Rightarrow> Board promise" where
  "boardService_updateBoard boardId updates = (\<lambda>w.
     query asBoard
       (BoardsUpdate (assign ''updated_at'' (Str (toISOString_now w)) (spread [] updates)) boardId) w)"

definition boardService_deleteBoard :: "ident \<Rightarrow> Board promise" where
  "boardService_deleteBoard boardId = query asBoard (BoardsDelete boardId)"

subsection \<open>\<^verbatim>\<open>columnService\<close>\<close>

definition columnService_getColumns :: "ident \<Rightarrow> Column list promise" where
  "columnService_getColumns boardId = query asColumns (ColumnsSelectByBoard boardId)"

definition columnService_createColumn :: "ColumnInsert \<Rightarrow> Column promise" where
  "columnService_createColumn column =
     await (query asColumn (ColumnsInsert column)) (\<lambda>data.
     await (touchBoard (c_board_id data)) (\<lambda>_.
     resolve data))"

definition columnService_updateColumnTitle :: "ident \<Rightarrow> string \<Rightarrow> Column promise" where
  "columnService_updateColumnTitle columnId title =
     await (query asColumn (ColumnsUpdate [(''title'', Str title)] columnId)) (\<lambda>data.
     await (touchBoard (c_board_id data)) (\<lambda>_.
     resolve data))"

subsection \<open>\<^verbatim>\<open>taskService\<close>\<close>

definition taskService_getTasksByBoard :: "ident \<Rightarrow> Task list promise" where
  "taskService_getTasksByBoard boardId = query asTasks (TasksSelectByBoard boardId)"

definition taskService_createTask :: "TaskInsert \<Rightarrow> Task promise" where
  "taskService_createTask task =
     await (query asTask (TasksInsert task)) (\<lambda>created.
     await (getBoardIdByColumnId (t_column_id created)) (\<lambda>boardId.
     await (touchBoard boardId) (\<lambda>_.
     resolve created)))"

record EditParams =
  p_taskId :: ident
  p_updates :: "obj option"
  p_columnId :: "ident option"
  p_sortOrder :: "int option"

definition editPatch :: "EditParams \<Rightarrow> timestamp \<Rightarrow> obj" where
  \<comment> \<open>the object literal \<^verbatim>\<open>patch\<close> of \<^verbatim>\<open>editTaskInColumn\<close>\<close>
  "editPatch params nowIso =
     assign ''updated_at'' (Str nowIso)
       (spread
         (spread
           (spread [] (case p_updates params of None \<Rightarrow> [] | Some u \<Rightarrow> u))
           (case p_columnId params of None \<Rightarrow> [] | Some c \<Rightarrow> [(''column_id'', Str c)]))
         (case p_sortOrder params of None \<Rightarrow> [] | Some n \<Rightarrow> [(''sort_order'', Num n)]))"

definition taskService_editTaskInColumn :: "EditParams \<Rightarrow> Task promise" where
  "taskService_editTaskInColumn params = (\<lambda>w.
     (await (query asTask (TasksUpdate (editPatch params (toISOString_now w)) (p_taskId params)))
        (\<lambda>updated.
      await (getBoardIdByColumnId (t_column_id updated)) (\<lambda>boardId.
      await (touchBoard boardId) (\<lambda>_.
      resolve updated)))) w)"

definition taskService_updateTask :: "ident \<Rightarrow> obj \<Rightarrow> Task promise" where
  "taskService_updateTask tid upd =
     taskService_editTaskInColumn
       \<lparr>p_taskId = tid, p_updates = Some upd, p_columnId = None, p_sortOrder = None\<rparr>"

definition taskService_moveTask :: "ident \<Rightarrow> ident \<Rightarrow> int \<Rightarrow> Task promise" where
  "taskService_moveTask tid newColumnId newOrder =
     taskService_editTaskInColumn
       \<lparr>p_taskId = tid, p_updates = None, p_columnId = Some newColumnId,
        p_sortOrder = Some newOrder\<rparr>"

definition taskService_deleteTask :: "ident \<Rightarrow> Task promise" where
  "taskService_deleteTask tid =
     await (query asTask (TasksDelete tid)) (\<lambda>deleted.
     await (getBoardIdByColumnId (t_column_id deleted)) (\<lambda>boardId.
     await (touchBoard boardId) (\<lambda>_.
     resolve deleted)))"

subsection \<open>\<^verbatim>\<open>boardDataService\<close>\<close>

text \<open>
  \<^verbatim>\<open>Promise.all\<close> starts every promise; none is cancelled when another rejects. The model
  runs them in array order and rejects with the first rejection in that order (the real
  client interleaves the requests of concurrent chains and rejects with whichever fails
  first in time; no property below depends on that order).
\<close>

definition all2 :: "'a promise \<Rightarrow> 'b promise \<Rightarrow> ('a \<times> 'b) promise" where
  "all2 p q = (\<lambda>w.
     case p w of (ra, w1) \<Rightarrow>
     case q w1 of (rb, w2) \<Rightarrow>
       (case ra of Inl err \<Rightarrow> Inl err
        | Inr a \<Rightarrow> (case rb of Inl err \<Rightarrow> Inl err | Inr b \<Rightarrow> Inr (a, b)), w2))"

fun allOf :: "'a promise list \<Rightarrow> 'a list promise" where
  "allOf [] w = (Inr [], w)"
| "allOf (p # ps) w =
     (case p w of (ra, w1) \<Rightarrow>
      case allOf ps w1 of (rs, w2) \<Rightarrow>
        (case ra of Inl err \<Rightarrow> Inl err
         | Inr a \<Rightarrow> (case rs of Inl err \<Rightarrow> Inl err | Inr as \<Rightarrow> Inr (a # as)), w2))"

definition getBoardwithColumns :: "ident \<Rightarrow> (Board \<times> ColumnWithTasks list) promise" where
  "getBoardwithColumns boardId =
     await (all2 (boardService_getBoard boardId) (columnService_getColumns boardId))
       (\<lambda>(board, cols).
     case board of
       None \<Rightarrow> (\<lambda>w. (Inl (JsError ''Board not found''), w))
     | Some b \<Rightarrow>
         await (taskService_getTasksByBoard boardId) (\<lambda>ts.
         resolve (b, map (\<lambda>column.
           withTasks column (filter (\<lambda>task. t_column_id task = c_id column) ts)) cols)))"

record BoardData =
  bd_title :: string
  bd_description :: "string option"
  bd_color :: "string option"
  bd_userId :: ident

definition defaults :: "(string \<times> int) list" where
  "defaults = [(''To Do'', 0), (''In Progress'', 1), (''Review'', 2), (''Done'', 3)]"

definition createBoardWithDefaultColumns :: "BoardData \<Rightarrow> Board promise" where
  "createBoardWithDefaultColumns boardData =
     await (boardService_createBoard
       \<lparr>bi_title = bd_title boardData,
        bi_description = (case bd_description boardData of
                            None \<Rightarrow> None | Some d \<Rightarrow> if d = [] then None else Some d),
        bi_color = (case bd_color boardData of
                      None \<Rightarrow> ''bg-blue-500'' | Some c \<Rightarrow> if c = [] then ''bg-blue-500'' else c),
        bi_user_id = bd_userId boardData\<rparr>) (\<lambda>board.
     await (allOf (map (\<lambda>(title, sort_order).
       columnService_createColumn
         \<lparr>ci_title = title, ci_sort_order = sort_order,
          ci_board_id = b_id board, ci_user_id = bd_userId boardData\<rparr>) defaults)) (\<lambda>_.
     resolve board))"

record BoardDeep =
  deep_board :: Board
  deep_columns :: "Column list"
  deep_tasks :: "Task list"

definition getBoardDeep :: "ident \<Rightarrow> BoardDeep promise" where
  "getBoardDeep boardId =
     await (getBoardwithColumns boardId) (\<lambda>(board, columnsWithTasks).
     resolve \<lparr>deep_board = board,
              deep_columns = map withoutTasks columnsWithTasks,
              deep_tasks = concat (map tasks columnsWithTasks)\<rparr>)"

section \<open>Hooks (\<^verbatim>\<open>lib/hooks/useBoards.ts\<close>)\<close>

text \<open>
  The sources hold an earlier copy of the two hooks as well; the model follows
  \<^verbatim>\<open>lib/hooks/useBoards.ts\<close>, the copy with \<^verbatim>\<open>sanitizeTaskUpdates\<close>.
\<close>

text \<open>
  The hook context is what \<^verbatim>\<open>useUser()\<close> and \<^verbatim>\<open>useSupabase()\<close> hand out: the signed-in
  user's identity, if any, and whether the store handle exists yet. Every operation is an
  \<^verbatim>\<open>async\<close> function of the hook's state and the world; it rejects (\<open>Inl\<close>) or resolves
  to a value or to \<^verbatim>\<open>undefined\<close> (\<open>Inr None\<close>). Operations run one at a time, so the
  state a closure captured is the state its updaters see. \<^verbatim>\<open>console.error\<close> is not
  modelled.
\<close>

record HookCtx =
  user :: "ident option"
  supabase :: bool


record HookState =
  loading :: bool
  error :: "string option"

record BoardsState = HookState +
  boards :: "Board list"
  boardCounts :: "ident \<rightharpoonup> nat"

record BoardDeletedSnapshot =
  snap_board :: Board
  snap_columns :: "Column list"
  snap_tasks :: "Task list"

record DeletedSnapshot =
  del_task :: Task
  del_columnId :: ident
  del_index :: nat

type_synonym ('s, 'a) op = "'s \<times> world \<Rightarrow> (thrown + 'a option) \<times> 's \<times> world"


definition returned :: "(thrown + 'a) \<times> 's \<times> world \<Rightarrow> thrown + 'a" where
  "returned out = fst out"

definition errorSlot :: "(thrown + 'a) \<times> 'z HookState_scheme \<times> world \<Rightarrow> string option" where
  "errorSlot out = error (fst (snd out))"

subsection \<open>\<^verbatim>\<open>useBoards\<close>: the list of boards\<close>





definition deleteBoard :: "HookCtx \<Rightarrow> ident \<Rightarrow> (BoardsState, BoardDeletedSnapshot) op" where
  "deleteBoard cx boardId = (\<lambda>(st, w).
     if \<not> supabase cx then (Inl (JsError ''Not ready yet''), st, w)
     else
       case getBoardDeep boardId w of
         (Inl err, w1) \<Rightarrow>
           (Inr None, st\<lparr>error := Some (errorMessage err ''Failed to snapshot board.'')\<rparr>, w1)
       | (Inr deep, w1) \<Rightarrow>
           let snapshot = \<lparr>snap_board = deep_board deep, snap_columns = deep_columns deep,
                           snap_tasks = deep_tasks deep\<rparr>;
               st1 = st\<lparr>boards := filter (\<lambda>b. b_id b \<noteq> boardId) (boards st),
                        boardCounts := (\<lambda>i. if i \<noteq> boardId then boardCounts st i else None)\<rparr>
           in
             (case boardService_deleteBoard boardId w1 of
                (Inr _, w2) \<Rightarrow> (Inr (Some snapshot), st1, w2)
              | (Inl err, w2) \<Rightarrow>
                  (Inr None,
                   st1\<lparr>boards := snap_board snapshot # boards st1,
                       boardCounts := (boardCounts st1)
                         (b_id (snap_board snapshot) \<mapsto> length (snap_tasks snapshot)),
                       error := Some (errorMessage err ''Failed to delete board.'')\<rparr>, w2)))"

definition sortOrderOfColumn :: "Column \<Rightarrow> int" where
  \<comment> \<open>\<^verbatim>\<open>c.sort_order ?? 0\<close>\<close>
  "sortOrderOfColumn c = (case c_sort_order c of None \<Rightarrow> 0 | Some n \<Rightarrow> n)"

definition sortOrderOf :: "Task \<Rightarrow> int" where
  \<comment> \<open>\<^verbatim>\<open>t.sort_order ?? 0\<close>\<close>
  "sortOrderOf t = (case t_sort_order t of None \<Rightarrow> 0 | Some n \<Rightarrow> n)"

text \<open>
  The two loops of \<^verbatim>\<open>restoreBoard\<close>. \<open>colIdMap\<close> is the \<^verbatim>\<open>Map\<close> from old to new column
  identities; \<^verbatim>\<open>if (!newColumnId) continue\<close> skips a task whose column has no entry, or
  an empty one.
\<close>

fun recreateColumns ::
  "ident \<Rightarrow> Column list \<Rightarrow> (ident \<times> ident) list \<Rightarrow> (ident \<times> ident) list promise" where
  "recreateColumns newBoardId [] colIdMap w = (Inr colIdMap, w)"
| "recreateColumns newBoardId (c # cs) colIdMap w =
     (case columnService_createColumn
             \<lparr>ci_title = c_title c, ci_sort_order = sortOrderOfColumn c,
              ci_board_id = newBoardId, ci_user_id = c_user_id c\<rparr> w of
        (Inl err, w1) \<Rightarrow> (Inl err, w1)
      | (Inr newCol, w1) \<Rightarrow>
          recreateColumns newBoardId cs (AList.update (c_id c) (c_id newCol) colIdMap) w1)"

definition recreatedTask :: "Task \<Rightarrow> ident \<Rightarrow> TaskInsert" where
  "recreatedTask t newColumnId =
     \<lparr>ti_title = t_title t, ti_description = t_description t, ti_assignee = t_assignee t,
      ti_due_date = t_due_date t,
      ti_priority = (case t_priority t of None \<Rightarrow> Medium | Some p \<Rightarrow> p),
      ti_sort_order = sortOrderOf t, ti_column_id = newColumnId\<rparr>"

fun recreateTasks :: "(ident \<times> ident) list \<Rightarrow> Task list \<Rightarrow> unit promise" where
  "recreateTasks colIdMap [] w = (Inr (), w)"
| "recreateTasks colIdMap (t # ts) w =
     (case map_of colIdMap (t_column_id t) of
        None \<Rightarrow> recreateTasks colIdMap ts w
      | Some newColumnId \<Rightarrow>
          if newColumnId = [] then recreateTasks colIdMap ts w
          else
            (case taskService_createTask (recreatedTask t newColumnId) w of
               (Inl err, w1) \<Rightarrow> (Inl err, w1)
             | (Inr _, w1) \<Rightarrow> recreateTasks colIdMap ts w1))"

definition recreate :: "BoardDeletedSnapshot \<Rightarrow> Board promise" where
  \<comment> \<open>the awaits of the \<^verbatim>\<open>try\<close> block: the board, its columns in order, its tasks\<close>
  "recreate snapshot =
     await (boardService_createBoard
              \<lparr>bi_title = b_title (snap_board snapshot),
               bi_description = b_description (snap_board snapshot),
               bi_color = b_color (snap_board snapshot),
               bi_user_id = b_user_id (snap_board snapshot)\<rparr>) (\<lambda>recreateBoard.
     await (recreateColumns (b_id recreateBoard)
              (sort_key sortOrderOfColumn (snap_columns snapshot)) []) (\<lambda>colIdMap.
     await (recreateTasks colIdMap (snap_tasks snapshot)) (\<lambda>_.
     resolve recreateBoard)))"

definition restoreBoard :: "HookCtx \<Rightarrow> BoardDeletedSnapshot \<Rightarrow> (BoardsState, Board) op" where
  "restoreBoard cx snapshot = (\<lambda>(st, w).
     if \<not> supabase cx then (Inl (JsError ''Not ready yet.''), st, w)
     else
       case recreate snapshot w of
         (Inr recreateBoard, w1) \<Rightarrow>
           (Inr (Some recreateBoard),
            st\<lparr>boards := recreateBoard # boards st,
               boardCounts := (boardCounts st)
                 (b_id recreateBoard \<mapsto> length (snap_tasks snapshot))\<rparr>, w1)
       | (Inl err, w1) \<Rightarrow>
           (Inr None, st\<lparr>error := Some (errorMessage err ''Failed to restore board.'')\<rparr>, w1))"

subsection \<open>\<^verbatim>\<open>useBoard\<close>: one board with its columns and tasks\<close>

record BoardState = HookState +
  board :: "Board option"
  columns :: "ColumnWithTasks list"

fun sanitizeStep :: "string \<times> jsval \<Rightarrow> obj \<Rightarrow> obj" where
  \<comment> \<open>the body of the loop over \<^verbatim>\<open>Object.entries(updates)\<close>\<close>
  "sanitizeStep (key, v) out =
     (if v = Undefined then out
      else if key = ''due_date'' \<or> key = ''description'' \<or> key = ''assignee''
           then assign key (if v = Str [] then Null else v) out
           else assign key v out)"

definition sanitizeTaskUpdates :: "obj \<Rightarrow> obj" where
  "sanitizeTaskUpdates upd = fold sanitizeStep upd []"

fun findIndex :: "('a \<Rightarrow> bool) \<Rightarrow> 'a list \<Rightarrow> nat option" where
  \<comment> \<open>\<^verbatim>\<open>Array.prototype.findIndex\<close>; \<open>None\<close> is \<^verbatim>\<open>-1\<close>\<close>
  "findIndex P [] = None"
| "findIndex P (x # xs) =
     (if P x then Some 0 else (case findIndex P xs of None \<Rightarrow> None | Some i \<Rightarrow> Some (Suc i)))"

definition splice1 :: "nat \<Rightarrow> 'a list \<Rightarrow> 'a list" where
  \<comment> \<open>\<^verbatim>\<open>xs.splice(idx, 1)\<close>\<close>
  "splice1 idx xs = take idx xs @ drop (Suc idx) xs"

fun removeFromCurrent :: "ident \<Rightarrow> ColumnWithTasks list \<Rightarrow> ColumnWithTasks list" where
  \<comment> \<open>the loop that splices the task out of the first column holding it, then breaks\<close>
  "removeFromCurrent tid [] = []"
| "removeFromCurrent tid (c # cs) =
     (case findIndex (\<lambda>t. t_id t = tid) (tasks c) of
        Some idx \<Rightarrow> c\<lparr>tasks := splice1 idx (tasks c)\<rparr> # cs
      | None \<Rightarrow> c # removeFromCurrent tid cs)"

fun insertIntoTarget :: "Task \<Rightarrow> ColumnWithTasks list \<Rightarrow> ColumnWithTasks list" where
  \<comment> \<open>\<^verbatim>\<open>next.find((c) => c.id === updated.column_id)\<close>, then push and (stable) sort\<close>
  "insertIntoTarget updated [] = []"
| "insertIntoTarget updated (c # cs) =
     (if c_id c = t_column_id updated
      then c\<lparr>tasks := sort_key sortOrderOf (tasks c @ [updated])\<rparr> # cs
      else c # insertIntoTarget updated cs)"

definition relocate :: "ident \<Rightarrow> Task \<Rightarrow> ColumnWithTasks list \<Rightarrow> ColumnWithTasks list" where
  \<comment> \<open>the \<^verbatim>\<open>setColumns\<close> updater shared by \<^verbatim>\<open>moveTask\<close> and \<^verbatim>\<open>updateTask\<close>\<close>
  "relocate tid updated prev = insertIntoTarget updated (removeFromCurrent tid prev)"


record TaskData =
  td_title :: string
  td_description :: "string option"
  td_assignee :: "string option"
  td_dueDate :: "string option"
  td_priority :: "priority option"

definition nextSortOrder :: "ident \<Rightarrow> ColumnWithTasks list \<Rightarrow> int" where
  \<comment> \<open>\<^verbatim>\<open>columns.find((c) => c.id === columnId)?.tasks.length ?? 0\<close>\<close>
  "nextSortOrder colId cols =
     (case find (\<lambda>c. c_id c = colId) cols of None \<Rightarrow> 0 | Some c \<Rightarrow> int (length (tasks c)))"

definition taskPayload :: "ident \<Rightarrow> TaskData \<Rightarrow> int \<Rightarrow> TaskInsert" where
  \<comment> \<open>the object literal handed to \<^verbatim>\<open>taskService.createTask\<close>\<close>
  "taskPayload colId taskData sortOrder =
     \<lparr>ti_title = td_title taskData, ti_description = td_description taskData,
      ti_assignee = td_assignee taskData, ti_due_date = td_dueDate taskData,
      ti_priority = (case td_priority taskData of None \<Rightarrow> Medium | Some p \<Rightarrow> p),
      ti_sort_order = sortOrder, ti_column_id = colId\<rparr>"

definition createRealTask :: "HookCtx \<Rightarrow> ident \<Rightarrow> TaskData \<Rightarrow> (BoardState, Task) op" where
  "createRealTask cx colId taskData = (\<lambda>(st, w).
     if \<not> supabase cx then (Inl (JsError ''Not ready yet''), st, w)
     else
       let sortOrder = nextSortOrder colId (columns st)
       in
         (case taskService_createTask (taskPayload colId taskData sortOrder) w of
            (Inr newTask, w1) \<Rightarrow>
              (Inr (Some newTask),
               st\<lparr>columns := map (\<lambda>col.
                    if c_id col = colId then col\<lparr>tasks := tasks col @ [newTask]\<rparr> else col)
                    (columns st)\<rparr>, w1)
          | (Inl err, w1) \<Rightarrow>
              (Inr None,
               st\<lparr>error := Some (errorMessage err ''Failed to create the task.'')\<rparr>, w1)))"

definition moveTask :: "HookCtx \<Rightarrow> ident \<Rightarrow> ident \<Rightarrow> int \<Rightarrow> (BoardState, unit) op" where
  "moveTask cx tid newColumnId newOrder = (\<lambda>(st, w).
     if \<not> supabase cx then (Inl (JsError ''Not ready yet''), st, w)
     else
       case taskService_moveTask tid newColumnId newOrder w of
         (Inr updated, w1) \<Rightarrow>
           (Inr None, st\<lparr>columns := relocate tid updated (columns st)\<rparr>, w1)
       | (Inl err, w1) \<Rightarrow>
           (Inr None, st\<lparr>error := Some (errorMessage err ''Failed to move task'')\<rparr>, w1))"

text \<open>
  In \<^verbatim>\<open>updateTask\<close> the branch \<^verbatim>\<open>if (!updatedTask)\<close> (reload and return) is not taken
  for any row: \<^verbatim>\<open>editTaskInColumn\<close> reads \<^verbatim>\<open>updated.column_id\<close> before it returns, so
  it resolves to a row or rejects.
\<close>

definition updateTask :: "HookCtx \<Rightarrow> ident \<Rightarrow> obj \<Rightarrow> (BoardState, Task) op" where
  "updateTask cx tid upd = (\<lambda>(st, w).
     if \<not> supabase cx then (Inl (JsError ''Not ready yet''), st, w)
     else
       let clean = sanitizeTaskUpdates upd
       in
         (case taskService_updateTask tid clean w of
            (Inr updatedTask, w1) \<Rightarrow>
              (Inr (Some updatedTask),
               st\<lparr>columns := relocate tid updatedTask (columns st)\<rparr>, w1)
          | (Inl err, w1) \<Rightarrow>
              (Inr None, st\<lparr>error := Some (errorMessage err ''Failed to update task.'')\<rparr>, w1)))"



text \<open>
  In \<^verbatim>\<open>deleteTask\<close>, \<open>containing\<close> is found with \<^verbatim>\<open>some\<close> on the very predicate
  \<^verbatim>\<open>findIndex\<close> then uses, so \<^verbatim>\<open>findIndex\<close> cannot answer \<^verbatim>\<open>-1\<close> there (lemma
  \<open>findIndex_list_ex\<close> below); the model returns from that branch without acting.
\<close>

definition deleteTask :: "HookCtx \<Rightarrow> ident \<Rightarrow> (BoardState, DeletedSnapshot) op" where
  "deleteTask cx tid = (\<lambda>(st, w).
     if \<not> supabase cx then (Inl (JsError ''Not ready yet''), st, w)
     else
       case find (\<lambda>c. list_ex (\<lambda>t. t_id t = tid) (tasks c)) (columns st) of
         None \<Rightarrow> (Inr None, st, w)
       | Some containing \<Rightarrow>
           (case findIndex (\<lambda>t. t_id t = tid) (tasks containing) of
              None \<Rightarrow> (Inr None, st, w)
            | Some index \<Rightarrow>
                let task = tasks containing ! index;
                    st1 = st\<lparr>columns := map (\<lambda>c.
                            if c_id c = c_id containing
                            then c\<lparr>tasks := filter (\<lambda>t. t_id t \<noteq> tid) (tasks c)\<rparr> else c)
                            (columns st)\<rparr>
                in
                  (case taskService_deleteTask tid w of
                     (Inr _, w1) \<Rightarrow>
                       (Inr (Some \<lparr>del_task = task, del_columnId = c_id containing,
                                   del_index = index\<rparr>), st1, w1)
                   | (Inl err, w1) \<Rightarrow>
                       (Inr None,
                        st1\<lparr>columns := map (\<lambda>c.
                               if c_id c = c_id containing
                               then c\<lparr>tasks := take index (tasks c) @ [task] @
                                                drop index (tasks c)\<rparr>
                               else c) (columns st1),
                            error := Some (errorMessage err ''Failed to delete task.'')\<rparr>,
                        w1))))"

subsection \<open>What \<^verbatim>\<open>updateTask\<close> sends to the store\<close>

text \<open>
  The hook hands \<open>sanitizeTaskUpdates upd\<close> to \<open>taskService.updateTask\<close>, which passes it
  to \<open>editTaskInColumn\<close> as \<^verbatim>\<open>updates\<close> with no column and no sort position; the
  \<^verbatim>\<open>patch\<close> built there is the payload of the update request.
\<close>

definition storePayload :: "ident \<Rightarrow> obj \<Rightarrow> timestamp \<Rightarrow> obj" where
  "storePayload tid upd nowIso =
     editPatch \<lparr>p_taskId = tid, p_updates = Some (sanitizeTaskUpdates upd), p_columnId = None,
                p_sortOrder = None\<rparr> nowIso"

definition isTextKey :: "string \<Rightarrow> bool" where
  \<comment> \<open>the keys \<open>sanitizeStep\<close> normalises\<close>
  "isTextKey key = (key = ''due_date'' \<or> key = ''description'' \<or> key = ''assignee'')"

subsection \<open>Reading the world\<close>

text \<open>
  The task rows a run asked the store to insert, in order; and a store that never fails
  the requests \<open>restoreBoard\<close> sends: every insert is answered with a row (a column row
  with a non-empty identity), every lookup of a column's board with an identity, and no
  touch fails.
\<close>

fun insertedTasks :: "request list \<Rightarrow> TaskInsert list" where
  "insertedTasks [] = []"
| "insertedTasks (TasksInsert x # qs) = x # insertedTasks qs"
| "insertedTasks (_ # qs) = insertedTasks qs"



text \<open>
  What a run exchanged with the store. \<open>exchanges srv h qs\<close> pairs each request of \<open>qs\<close>,
  sent after the history \<open>h\<close>, with the store's reply to it. \<open>sentInserts w w1 xs\<close> says
  that the run from world \<open>w\<close> to world \<open>w1\<close> kept the store, only added requests to the
  log, and that the row inserts among the added requests, each with the reply it got, are
  \<open>xs\<close> in the order sent.
\<close>

fun isInsert :: "request \<Rightarrow> bool" where
  "isInsert (BoardsInsert x) = True"
| "isInsert (ColumnsInsert x) = True"
| "isInsert (TasksInsert x) = True"
| "isInsert _ = False"

fun exchanges ::
  "(request list \<Rightarrow> request \<Rightarrow> reply) \<Rightarrow> request list \<Rightarrow> request list \<Rightarrow> (request \<times> reply) list" where
  "exchanges srv h [] = []"
| "exchanges srv h (q # qs) = (q, srv h q) # exchanges srv (h @ [q]) qs"

definition sentInserts :: "world \<Rightarrow> world \<Rightarrow> (request \<times> reply) list \<Rightarrow> bool" where
  "sentInserts w w1 xs =
     (server w1 = server w \<and>
      (\<exists>sent. log w1 = log w @ sent \<and>
         filter (\<lambda>x. isInsert (fst x)) (exchanges (server w) (log w) sent) = xs))"

subsection \<open>Sequences of task operations\<close>

datatype action =
    CreateTask ident TaskData
  | MoveTask ident ident int
  | DeleteTask ident

fun perform :: "HookCtx \<Rightarrow> action \<Rightarrow> BoardState \<times> world \<Rightarrow> BoardState \<times> world" where
  "perform cx (CreateTask colId taskData) sw = snd (createRealTask cx colId taskData sw)"
| "perform cx (MoveTask tid newColumnId newOrder) sw = snd (moveTask cx tid newColumnId newOrder sw)"
| "perform cx (DeleteTask tid) sw = snd (deleteTask cx tid sw)"

definition run :: "HookCtx \<Rightarrow> action list \<Rightarrow> BoardState \<times> world \<Rightarrow> BoardState \<times> world" where
  "run cx acts sw = fold (perform cx) acts sw"

definition sortedByPosition :: "ColumnWithTasks \<Rightarrow> bool" where
  "sortedByPosition c = sorted (map sortOrderOf (tasks c))"

section \<open>Sample worlds and states\<close>

text \<open>
  A scripted world answers its \<open>n\<close>-th request with the \<open>n\<close>-th reply of the script and
  fails every request after the script's end.
\<close>

definition scripted :: "reply list \<Rightarrow> world" where
  "scripted rs =
     \<lparr>server = (\<lambda>h q. case drop (length h) rs of [] \<Rightarrow> Failed NonError | r # _ \<Rightarrow> r),
      log = [],
      clock = (\<lambda>h. ''2025-01-01T00:00:00.000Z'')\<rparr>"

definition readyCtx :: HookCtx where
  "readyCtx = \<lparr>user = Some ''u1'', supabase = True\<rparr>"

definition boardA :: Board where
  "boardA = \<lparr>b_id = ''A'', b_title = ''Alpha'', b_description = None,
     b_color = ''bg-blue-500'', b_user_id = ''u1'',
     b_created_at = ''2024-12-01T00:00:00.000Z'', b_updated_at = ''2024-12-02T00:00:00.000Z''\<rparr>"

definition boardB :: Board where
  "boardB = \<lparr>b_id = ''B'', b_title = ''Beta'', b_description = None,
     b_color = ''bg-blue-500'', b_user_id = ''u1'',
     b_created_at = ''2024-11-01T00:00:00.000Z'', b_updated_at = ''2024-11-02T00:00:00.000Z''\<rparr>"

definition twoBoards :: BoardsState where
  "twoBoards = \<lparr>loading = False, error = None, boards = [boardA, boardB],
     boardCounts = [''A'' \<mapsto> 1, ''B'' \<mapsto> 2]\<rparr>"

definition mkTask :: "ident \<Rightarrow> ident \<Rightarrow> string \<Rightarrow> int \<Rightarrow> Task" where
  "mkTask i col title pos =
     \<lparr>t_id = i, t_column_id = col, t_title = title, t_description = None, t_assignee = None,
      t_due_date = None, t_priority = Some Medium, t_sort_order = Some pos,
      t_created_at = ''2024-12-01T00:00:00.000Z'', t_updated_at = ''2024-12-01T00:00:00.000Z''\<rparr>"

definition mkColumn :: "ident \<Rightarrow> string \<Rightarrow> int \<Rightarrow> Column" where
  "mkColumn i title pos =
     \<lparr>c_id = i, c_board_id = ''A'', c_title = title, c_sort_order = Some pos,
      c_user_id = ''u1'', c_created_at = ''2024-12-01T00:00:00.000Z''\<rparr>"

definition threeTasks :: "Task list" where
  "threeTasks = [mkTask ''t1'' ''todo'' ''Write'' 0, mkTask ''t2'' ''todo'' ''Review'' 1,
                 mkTask ''t3'' ''todo'' ''Ship'' 2]"

definition boardView :: BoardState where
  "boardView = \<lparr>loading = False, error = None, board = Some boardA,
     columns = [withTasks (mkColumn ''todo'' ''To Do'' 0) threeTasks,
                withTasks (mkColumn ''doing'' ''Doing'' 1) []]\<rparr>"

definition touchFails :: "reply \<Rightarrow> world" where
  "touchFails row = scripted [row, BoardIdOf ''A'', Failed (JsError ''touch failed'')]"

definition notReadyCtx :: HookCtx where
  "notReadyCtx = \<lparr>user = None, supabase = False\<rparr>"


text \<open>
  An in-memory store that never fails an insert: it answers with the inserted row under
  a fresh identity (one letter longer with every request), knows the board of every column
  it created, takes any other column to belong to board \<open>A\<close>, and accepts every touch.
\<close>

definition freshId :: "request list \<Rightarrow> ident" where
  "freshId h = replicate (Suc (length h)) (CHR ''n'')"

fun boardOfColumn :: "request list \<Rightarrow> request list \<Rightarrow> ident \<Rightarrow> ident" where
  "boardOfColumn before [] i = ''A''"
| "boardOfColumn before (ColumnsInsert x # qs) i =
     (if freshId before = i then ci_board_id x
      else boardOfColumn (before @ [ColumnsInsert x]) qs i)"
| "boardOfColumn before (q # qs) i = boardOfColumn (before @ [q]) qs i"

fun echoServer :: "request list \<Rightarrow> request \<Rightarrow> reply" where
  "echoServer h (BoardsInsert x) =
     BoardRow \<lparr>b_id = freshId h, b_title = bi_title x, b_description = bi_description x,
       b_color = bi_color x, b_user_id = bi_user_id x,
       b_created_at = ''2025-01-01T00:00:00.000Z'', b_updated_at = ''2025-01-01T00:00:00.000Z''\<rparr>"
| "echoServer h (ColumnsInsert x) =
     ColumnRow \<lparr>c_id = freshId h, c_board_id = ci_board_id x, c_title = ci_title x,
       c_sort_order = Some (ci_sort_order x), c_user_id = ci_user_id x,
       c_created_at = ''2025-01-01T00:00:00.000Z''\<rparr>"
| "echoServer h (TasksInsert x) =
     TaskRow \<lparr>t_id = freshId h, t_column_id = ti_column_id x, t_title = ti_title x,
       t_description = ti_description x, t_assignee = ti_assignee x,
       t_due_date = ti_due_date x, t_priority = Some (ti_priority x),
       t_sort_order = Some (ti_sort_order x),
       t_created_at = ''2025-01-01T00:00:00.000Z'', t_updated_at = ''2025-01-01T00:00:00.000Z''\<rparr>"
| "echoServer h (ColumnsSelectBoardId i) = BoardIdOf (boardOfColumn [] h i)"
| "echoServer h (BoardsTouch p i) = NoData"
| "echoServer h _ = Failed NonError"

definition echoWorld :: world where
  "echoWorld = \<lparr>server = echoServer, log = [], clock = (\<lambda>h. ''2025-01-01T00:00:00.000Z'')\<rparr>"

definition orphanSnapshot :: BoardDeletedSnapshot where
  "orphanSnapshot =
     \<lparr>snap_board = boardA,
      snap_columns = [mkColumn ''doing'' ''Doing'' 1, mkColumn ''todo'' ''To Do'' 0],
      snap_tasks = [mkTask ''t1'' ''todo'' ''Write'' 0, mkTask ''t7'' ''gone'' ''Lost'' 0,
                    mkTask ''t2'' ''doing'' ''Review'' 0]\<rparr>"

definition deleteFails :: world where
  "deleteFails = scripted
     [BoardRow boardB,
      ColumnRows [(mkColumn ''b-todo'' ''To Do'' 0)\<lparr>c_board_id := ''B''\<rparr>],
      TaskRows [mkTask ''t5'' ''b-todo'' ''Plan'' 0, mkTask ''t6'' ''b-todo'' ''Build'' 1],
      Failed (JsError ''offline'')]"

definition newTaskData :: TaskData where
  "newTaskData = \<lparr>td_title = ''Deploy'', td_description = None, td_assignee = None,
     td_dueDate = None, td_priority = None\<rparr>"

definition deleteTwoThenCreate :: world where
  "deleteTwoThenCreate = scripted
     [TaskRow (mkTask ''t1'' ''todo'' ''Write'' 0), BoardIdOf ''A'', NoData,
      TaskRow (mkTask ''t2'' ''todo'' ''Review'' 1), BoardIdOf ''A'', NoData,
      TaskRow (mkTask ''t4'' ''todo'' ''Deploy'' 1), BoardIdOf ''A'', NoData]"

section \<open>Properties\<close>

subsection \<open>Lists and requests\<close>

lemma findIndex_Some:
  "findIndex P xs = Some i \<Longrightarrow> i < length xs \<and> P (xs ! i) \<and> (\<forall>j<i. \<not> P (xs ! j))"
proof (induction xs arbitrary: i)
  case Nil
  then show ?case by simp
next
  case (Cons x xs)
  show ?case
  proof (cases "P x")
    case True
    with Cons.prems show ?thesis by simp
  next
    case False
    with Cons.prems obtain k where k: "findIndex P xs = Some k" "i = Suc k"
      by (auto split: option.splits)
    from Cons.IH [OF k(1)] False k(2) show ?thesis
      by (auto simp: nth_Cons split: nat.splits)
  qed
qed

lemma findIndex_list_ex: "list_ex P xs \<Longrightarrow> \<exists>i. findIndex P xs = Some i"
  by (induction xs) auto

lemma filter_out_nth:
  assumes "distinct (map f xs)" and "i < length xs"
  shows "filter (\<lambda>x. f x \<noteq> f (xs ! i)) xs = take i xs @ drop (Suc i) xs"
proof -
  have split: "xs = take i xs @ xs ! i # drop (Suc i) xs"
    using assms(2) by (rule id_take_nth_drop)
  have d: "distinct (map f (take i xs) @ f (xs ! i) # map f (drop (Suc i) xs))"
    using assms(1) by (subst (asm) split) simp
  have a: "filter (\<lambda>x. f x \<noteq> f (xs ! i)) (take i xs) = take i xs"
    using d by (auto simp: filter_id_conv image_iff)
  have b: "filter (\<lambda>x. f x \<noteq> f (xs ! i)) (drop (Suc i) xs) = drop (Suc i) xs"
    using d by (auto simp: filter_id_conv image_iff)
  have "filter (\<lambda>x. f x \<noteq> f (xs ! i)) xs =
        filter (\<lambda>x. f x \<noteq> f (xs ! i)) (take i xs @ xs ! i # drop (Suc i) xs)"
    using split by simp
  also have "\<dots> = take i xs @ drop (Suc i) xs"
    using a b by simp
  finally show ?thesis .
qed

lemma reinsert_at_index:
  assumes "distinct (map f xs)" and "i < length xs"
  shows "take i (filter (\<lambda>x. f x \<noteq> f (xs ! i)) xs) @ [xs ! i] @
         drop i (filter (\<lambda>x. f x \<noteq> f (xs ! i)) xs) = xs"
proof -
  let ?ys = "filter (\<lambda>x. f x \<noteq> f (xs ! i)) xs"
  have ys: "?ys = take i xs @ drop (Suc i) xs"
    by (rule filter_out_nth [OF assms])
  have len: "length (take i xs) = i" using assms(2) by simp
  have t: "take i ?ys = take i xs"
    unfolding ys using len by (simp del: length_take)
  have dr: "drop i ?ys = drop (Suc i) xs"
    unfolding ys using len by (simp del: length_take)
  have "take i ?ys @ [xs ! i] @ drop i ?ys = take i xs @ xs ! i # drop (Suc i) xs"
    unfolding t dr by simp
  also have "\<dots> = xs"
    using id_take_nth_drop [OF assms(2)] by simp
  finally show ?thesis .
qed

lemma getBoardDeep_log:
  assumes "getBoardDeep boardId w = (r, w1)"
  shows "\<exists>sent. log w1 = log w @ sent \<and>
     set sent \<subseteq> {BoardsSelectById boardId, ColumnsSelectByBoard boardId,
                    TasksSelectByBoard boardId}"
  using assms
  by (auto simp: getBoardDeep_def getBoardwithColumns_def await_def all2_def resolve_def
       boardService_getBoard_def columnService_getColumns_def taskService_getTasksByBoard_def
       query_def send_def
      split: prod.splits sum.splits option.splits)

lemmas run_defs =
  await_def all2_def resolve_def query_def send_def scripted_def toISOString_now_def
  touchBoard_def getBoardIdByColumnId_def
  boardService_getBoard_def boardService_createBoard_def boardService_updateBoard_def
  boardService_deleteBoard_def
  columnService_getColumns_def columnService_createColumn_def
  columnService_updateColumnTitle_def
  taskService_getTasksByBoard_def taskService_createTask_def taskService_editTaskInColumn_def
  taskService_updateTask_def taskService_moveTask_def taskService_deleteTask_def
  getBoardwithColumns_def getBoardDeep_def createBoardWithDefaultColumns_def

subsection \<open>Deleting a board\<close>

text \<open>
  Claim C6. When the snapshot capture of \<open>deleteBoard\<close> fails (the store handle being
  there, or no capture is attempted), the operation returns \<^verbatim>\<open>undefined\<close>, the error slot
  holds the message, \<open>boards\<close> and \<open>boardCounts\<close> are untouched (only the error slot of
  the state changes), and the world is the one the capture left: the requests sent are
  the capture's own selects, so no delete request is issued.
\<close>

theorem deleteBoard_snapshot_failure_aborts:
  assumes ready: "supabase cx"
    and capture: "getBoardDeep boardId w = (Inl err, w1)"
  shows "deleteBoard cx boardId (st, w) =
           (Inr None, st\<lparr>error := Some (errorMessage err ''Failed to snapshot board.'')\<rparr>, w1)
         \<and> (\<exists>sent. log w1 = log w @ sent \<and>
               set sent \<subseteq> {BoardsSelectById boardId, ColumnsSelectByBoard boardId,
                              TasksSelectByBoard boardId})"
proof
  show "deleteBoard cx boardId (st, w) =
           (Inr None, st\<lparr>error := Some (errorMessage err ''Failed to snapshot board.'')\<rparr>, w1)"
    using ready capture by (simp add: deleteBoard_def)
  show "\<exists>sent. log w1 = log w @ sent \<and>
               set sent \<subseteq> {BoardsSelectById boardId, ColumnsSelectByBoard boardId,
                              TasksSelectByBoard boardId}"
    using capture by (rule getBoardDeep_log)
qed

theorem deleteBoard_snapshot_failure_aborts_witness:
  "supabase readyCtx
   \<and> getBoardDeep ''B'' (scripted []) =
       (Inl NonError, (scripted [])\<lparr>log := [BoardsSelectById ''B'', ColumnsSelectByBoard ''B'']\<rparr>)
   \<and> deleteBoard readyCtx ''B'' (twoBoards, scripted []) =
       (Inr None, twoBoards\<lparr>error := Some ''Failed to snapshot board.''\<rparr>,
        (scripted [])\<lparr>log := [BoardsSelectById ''B'', ColumnsSelectByBoard ''B'']\<rparr>)"
proof -
  have ready: "supabase readyCtx" by (simp add: readyCtx_def)
  have capture: "getBoardDeep ''B'' (scripted []) =
       (Inl NonError, (scripted [])\<lparr>log := [BoardsSelectById ''B'', ColumnsSelectByBoard ''B'']\<rparr>)"
    by (simp add: run_defs)
  show ?thesis
    using ready capture deleteBoard_snapshot_failure_aborts [OF ready capture, of twoBoards]
    by (simp add: errorMessage_def)
qed

subsection \<open>Deleting a task\<close>

text \<open>
  Claim C10, as the code has it. For a task identity that no column holds, \<open>deleteTask\<close>
  sends no request and leaves the columns and the error slot as they were; it returns
  \<^verbatim>\<open>undefined\<close> when the store handle is available, and throws \<^verbatim>\<open>Not ready yet\<close> when it
  is not: the guard comes before the search for the task.
\<close>

theorem deleteTask_absent_task:
  assumes absent: "\<forall>c \<in> set (columns st). \<forall>t \<in> set (tasks c). t_id t \<noteq> tid"
  shows "deleteTask cx tid (st, w) =
           (if supabase cx then Inr None else Inl (JsError ''Not ready yet''), st, w)"
proof -
  have "find (\<lambda>c. list_ex (\<lambda>t. t_id t = tid) (tasks c)) (columns st) = None"
    using absent by (auto simp: find_None_iff list_ex_iff)
  then show ?thesis by (simp add: deleteTask_def)
qed

theorem deleteTask_absent_task_witness:
  "list_all (\<lambda>c. list_all (\<lambda>t. t_id t \<noteq> ''t9'') (tasks c)) (columns boardView)
   \<and> deleteTask readyCtx ''t9'' (boardView, scripted []) = (Inr None, boardView, scripted [])"
proof -
  have absent: "\<forall>c \<in> set (columns boardView). \<forall>t \<in> set (tasks c). t_id t \<noteq> ''t9''"
    by (simp add: boardView_def threeTasks_def mkTask_def mkColumn_def withTasks_def
          Column.defs ColumnWithTasks.defs)
  show ?thesis
    using absent deleteTask_absent_task [OF absent, of readyCtx "scripted []"]
    by (simp add: readyCtx_def list_all_iff)
qed

text \<open>
  Claim C10 as stated promises \<^verbatim>\<open>undefined\<close> for every task identity that no column
  holds. Before the store handle is there the call throws instead: no column of the
  sample board holds \<open>t9\<close>, and \<open>deleteTask\<close> rejects with \<^verbatim>\<open>Not ready yet\<close>, state and
  world as they were.
\<close>

theorem deleteTask_absent_not_ready_counterexample:
  "list_all (\<lambda>c. list_all (\<lambda>t. t_id t \<noteq> ''t9'') (tasks c)) (columns boardView)
   \<and> \<not> supabase notReadyCtx
   \<and> deleteTask notReadyCtx ''t9'' (boardView, scripted [])
       = (Inl (JsError ''Not ready yet''), boardView, scripted [])
   \<and> returned (deleteTask notReadyCtx ''t9'' (boardView, scripted [])) \<noteq> Inr None"
  by (simp add: deleteTask_def notReadyCtx_def returned_def boardView_def threeTasks_def
        mkTask_def mkColumn_def withTasks_def Column.defs ColumnWithTasks.defs)

text \<open>
  Claim C7. In a state whose column identities are distinct and whose columns hold each
  task identity at most once, let a task sit at index \<open>i\<close> of column \<open>c\<close>. When the
  Gateway delete fails, \<open>deleteTask\<close> returns \<^verbatim>\<open>undefined\<close>, sets the error slot and
  leaves every column's task list as it was before the call: the task is back at index
  \<open>i\<close> of \<open>c\<close>, not at the end.
\<close>

theorem deleteTask_failure_reinserts:
  assumes ready: "supabase cx"
    and cols: "distinct (map c_id (columns st))"
    and ids: "\<forall>c \<in> set (columns st). distinct (map t_id (tasks c))"
    and present: "c \<in> set (columns st)" "i < length (tasks c)" "t_id (tasks c ! i) = tid"
    and fails: "taskService_deleteTask tid w = (Inl err, w1)"
  shows "deleteTask cx tid (st, w) =
           (Inr None, st\<lparr>error := Some (errorMessage err ''Failed to delete task.'')\<rparr>, w1)"
proof -
  let ?P = "\<lambda>c. list_ex (\<lambda>t. t_id t = tid) (tasks c)"
  have "?P c" using present by (auto simp: list_ex_iff)
  with present(1) obtain containing where found: "find ?P (columns st) = Some containing"
    by (cases "find ?P (columns st)") (auto simp: find_None_iff)
  then have cin: "containing \<in> set (columns st)" and cP: "?P containing"
    by (auto simp: find_Some_iff)
  from findIndex_list_ex [OF cP] obtain index
    where idx: "findIndex (\<lambda>t. t_id t = tid) (tasks containing) = Some index" ..
  from findIndex_Some [OF idx]
  have ilen: "index < length (tasks containing)"
    and iid: "t_id (tasks containing ! index) = tid"
    by auto
  have dist: "distinct (map t_id (tasks containing))" using ids cin by blast
  have same: "\<And>d. d \<in> set (columns st) \<Longrightarrow> c_id d = c_id containing \<Longrightarrow> d = containing"
    using cols cin by (auto simp: distinct_map inj_on_def)
  have restore: "take index (filter (\<lambda>t. t_id t \<noteq> tid) (tasks containing)) @
          [tasks containing ! index] @
          drop index (filter (\<lambda>t. t_id t \<noteq> tid) (tasks containing)) = tasks containing"
    using reinsert_at_index [OF dist ilen] iid by simp
  define rm where "rm = (\<lambda>d::ColumnWithTasks. if c_id d = c_id containing
      then d\<lparr>tasks := filter (\<lambda>t. t_id t \<noteq> tid) (tasks d)\<rparr> else d)"
  define ins where "ins = (\<lambda>d::ColumnWithTasks. if c_id d = c_id containing
      then d\<lparr>tasks := take index (tasks d) @ [tasks containing ! index] @
                       drop index (tasks d)\<rparr> else d)"
  have "ins (rm d) = d" if "d \<in> set (columns st)" for d
  proof (cases "c_id d = c_id containing")
    case True
    then have "d = containing" using same that by blast
    then show ?thesis using restore by (simp add: ins_def rm_def)
  next
    case False
    then show ?thesis by (simp add: ins_def rm_def)
  qed
  then have restored: "map ins (map rm (columns st)) = columns st"
    by (simp add: map_idI)
  have "deleteTask cx tid (st, w) =
          (Inr None,
           st\<lparr>columns := map ins (map rm (columns st)),
              error := Some (errorMessage err ''Failed to delete task.'')\<rparr>, w1)"
    using ready found idx fails by (simp add: deleteTask_def Let_def ins_def rm_def)
  then show ?thesis using restored by simp
qed

theorem deleteTask_failure_reinserts_witness:
  "supabase readyCtx
   \<and> distinct (map c_id (columns boardView))
   \<and> list_all (\<lambda>c. distinct (map t_id (tasks c))) (columns boardView)
   \<and> withTasks (mkColumn ''todo'' ''To Do'' 0) threeTasks \<in> set (columns boardView)
   \<and> 1 < length (tasks (withTasks (mkColumn ''todo'' ''To Do'' 0) threeTasks))
   \<and> t_id (tasks (withTasks (mkColumn ''todo'' ''To Do'' 0) threeTasks) ! 1) = ''t2''
   \<and> taskService_deleteTask ''t2'' (scripted [Failed (JsError ''offline'')]) =
       (Inl (JsError ''offline''),
        (scripted [Failed (JsError ''offline'')])\<lparr>log := [TasksDelete ''t2'']\<rparr>)
   \<and> deleteTask readyCtx ''t2'' (boardView, scripted [Failed (JsError ''offline'')]) =
       (Inr None, boardView\<lparr>error := Some ''offline''\<rparr>,
        (scripted [Failed (JsError ''offline'')])\<lparr>log := [TasksDelete ''t2'']\<rparr>)"
proof -
  let ?c = "withTasks (mkColumn ''todo'' ''To Do'' 0) threeTasks"
  let ?w = "scripted [Failed (JsError ''offline'')]"
  have ready: "supabase readyCtx" by (simp add: readyCtx_def)
  have cols: "distinct (map c_id (columns boardView))"
    by (simp add: boardView_def mkColumn_def withTasks_def Column.defs ColumnWithTasks.defs)
  have ids: "\<forall>c \<in> set (columns boardView). distinct (map t_id (tasks c))"
    by (simp add: boardView_def threeTasks_def mkTask_def mkColumn_def withTasks_def
          Column.defs ColumnWithTasks.defs)
  have p1: "?c \<in> set (columns boardView)" by (simp add: boardView_def)
  have p2: "1 < length (tasks ?c)"
    by (simp add: threeTasks_def withTasks_def Column.defs ColumnWithTasks.defs)
  have p3: "t_id (tasks ?c ! 1) = ''t2''"
    by (simp add: threeTasks_def mkTask_def withTasks_def Column.defs ColumnWithTasks.defs)
  have fails: "taskService_deleteTask ''t2'' ?w =
       (Inl (JsError ''offline''), ?w\<lparr>log := [TasksDelete ''t2'']\<rparr>)"
    by (simp add: run_defs)
  show ?thesis
    using ready cols ids p1 p2 p3 fails
      deleteTask_failure_reinserts [OF ready cols ids p1 p2 p3 fails]
    by (simp add: errorMessage_def list_all_iff)
qed

lemma query_log: "query d q w = (r, w1) \<Longrightarrow> log w1 = log w @ [q]"
  by (auto simp: query_def send_def)

lemma getBoardIdByColumnId_log:
  "getBoardIdByColumnId c w = (r, w1) \<Longrightarrow> log w1 = log w @ [ColumnsSelectBoardId c]"
  unfolding getBoardIdByColumnId_def by (rule query_log)

lemma touchBoard_log:
  "touchBoard b w = (r, w1) \<Longrightarrow>
   log w1 = log w @ [BoardsTouch [(''updated_at'', Str (toISOString_now w))] b]"
  unfolding touchBoard_def by (rule query_log)

subsection \<open>The touch of the owning board\<close>

text \<open>
  Claim C2, as the code has it. \<open>touchBoard\<close> throws the store's error and no caller
  catches it. So when the primary write of \<open>editTaskInColumn\<close> (behind \<open>updateTask\<close> and
  \<open>moveTask\<close>), of \<open>taskService.deleteTask\<close> or of \<open>updateColumnTitle\<close> succeeds and the
  touch that follows fails, the service rejects with the touch's error and returns no
  record. The primary mutation is not rolled back: the touch is the last request sent.
\<close>

theorem touch_failure_rejects_without_rollback:
  "(query asTask (TasksUpdate (editPatch params (toISOString_now w)) (p_taskId params)) w
      = (Inr updated, w1)
    \<and> getBoardIdByColumnId (t_column_id updated) w1 = (Inr bid, w2)
    \<and> touchBoard bid w2 = (Inl err, w3)
    \<longrightarrow> taskService_editTaskInColumn params w = (Inl err, w3)
        \<and> log w3 = log w @
              [TasksUpdate (editPatch params (toISOString_now w)) (p_taskId params),
               ColumnsSelectBoardId (t_column_id updated),
               BoardsTouch [(''updated_at'', Str (toISOString_now w2))] bid])
   \<and> (query asTask (TasksDelete tid) w = (Inr deleted, w1)
    \<and> getBoardIdByColumnId (t_column_id deleted) w1 = (Inr bid, w2)
    \<and> touchBoard bid w2 = (Inl err, w3)
    \<longrightarrow> taskService_deleteTask tid w = (Inl err, w3)
        \<and> log w3 = log w @
              [TasksDelete tid, ColumnsSelectBoardId (t_column_id deleted),
               BoardsTouch [(''updated_at'', Str (toISOString_now w2))] bid])
   \<and> (query asColumn (ColumnsUpdate [(''title'', Str title)] cid) w = (Inr col, w1)
    \<and> touchBoard (c_board_id col) w1 = (Inl err, w3)
    \<longrightarrow> columnService_updateColumnTitle cid title w = (Inl err, w3)
        \<and> log w3 = log w @
              [ColumnsUpdate [(''title'', Str title)] cid,
               BoardsTouch [(''updated_at'', Str (toISOString_now w1))] (c_board_id col)])"
proof (intro conjI impI; elim conjE)
  assume a: "query asTask (TasksUpdate (editPatch params (toISOString_now w)) (p_taskId params)) w
      = (Inr updated, w1)"
    and b: "getBoardIdByColumnId (t_column_id updated) w1 = (Inr bid, w2)"
    and c: "touchBoard bid w2 = (Inl err, w3)"
  show "taskService_editTaskInColumn params w = (Inl err, w3)"
    using a b c by (simp add: taskService_editTaskInColumn_def await_def)
  show "log w3 = log w @
              [TasksUpdate (editPatch params (toISOString_now w)) (p_taskId params),
               ColumnsSelectBoardId (t_column_id updated),
               BoardsTouch [(''updated_at'', Str (toISOString_now w2))] bid]"
    using query_log [OF a] getBoardIdByColumnId_log [OF b] touchBoard_log [OF c] by simp
next
  assume a: "query asTask (TasksDelete tid) w = (Inr deleted, w1)"
    and b: "getBoardIdByColumnId (t_column_id deleted) w1 = (Inr bid, w2)"
    and c: "touchBoard bid w2 = (Inl err, w3)"
  show "taskService_deleteTask tid w = (Inl err, w3)"
    using a b c by (simp add: taskService_deleteTask_def await_def)
  show "log w3 = log w @
              [TasksDelete tid, ColumnsSelectBoardId (t_column_id deleted),
               BoardsTouch [(''updated_at'', Str (toISOString_now w2))] bid]"
    using query_log [OF a] getBoardIdByColumnId_log [OF b] touchBoard_log [OF c] by simp
next
  assume a: "query asColumn (ColumnsUpdate [(''title'', Str title)] cid) w = (Inr col, w1)"
    and c: "touchBoard (c_board_id col) w1 = (Inl err, w3)"
  show "columnService_updateColumnTitle cid title w = (Inl err, w3)"
    using a c by (simp add: columnService_updateColumnTitle_def await_def)
  show "log w3 = log w @
              [ColumnsUpdate [(''title'', Str title)] cid,
               BoardsTouch [(''updated_at'', Str (toISOString_now w1))] (c_board_id col)]"
    using query_log [OF a] touchBoard_log [OF c] by simp
qed

theorem touch_failure_rejects_without_rollback_witness:
  "taskService_editTaskInColumn
      \<lparr>p_taskId = ''t2'', p_updates = Some [(''title'', Str ''Check'')], p_columnId = None,
       p_sortOrder = None\<rparr>
      (touchFails (TaskRow (mkTask ''t2'' ''todo'' ''Check'' 1)))
     = (Inl (JsError ''touch failed''),
        (touchFails (TaskRow (mkTask ''t2'' ''todo'' ''Check'' 1)))
          \<lparr>log := [TasksUpdate [(''title'', Str ''Check''),
                                 (''updated_at'', Str ''2025-01-01T00:00:00.000Z'')] ''t2'',
                    ColumnsSelectBoardId ''todo'',
                    BoardsTouch [(''updated_at'', Str ''2025-01-01T00:00:00.000Z'')] ''A'']\<rparr>)
   \<and> taskService_deleteTask ''t2'' (touchFails (TaskRow (mkTask ''t2'' ''todo'' ''Review'' 1)))
     = (Inl (JsError ''touch failed''),
        (touchFails (TaskRow (mkTask ''t2'' ''todo'' ''Review'' 1)))
          \<lparr>log := [TasksDelete ''t2'', ColumnsSelectBoardId ''todo'',
                    BoardsTouch [(''updated_at'', Str ''2025-01-01T00:00:00.000Z'')] ''A'']\<rparr>)
   \<and> columnService_updateColumnTitle ''todo'' ''Backlog''
        (scripted [ColumnRow (mkColumn ''todo'' ''Backlog'' 0), Failed (JsError ''touch failed'')])
     = (Inl (JsError ''touch failed''),
        (scripted [ColumnRow (mkColumn ''todo'' ''Backlog'' 0), Failed (JsError ''touch failed'')])
          \<lparr>log := [ColumnsUpdate [(''title'', Str ''Backlog'')] ''todo'',
                    BoardsTouch [(''updated_at'', Str ''2025-01-01T00:00:00.000Z'')] ''A'']\<rparr>)"
proof -
  let ?p = "\<lparr>p_taskId = ''t2'', p_updates = Some [(''title'', Str ''Check'')],
             p_columnId = None, p_sortOrder = None\<rparr>"
  let ?t = "mkTask ''t2'' ''todo'' ''Check'' 1"
  let ?w = "touchFails (TaskRow ?t)"
  let ?patch = "[(''title'', Str ''Check''), (''updated_at'', Str ''2025-01-01T00:00:00.000Z'')]"
  let ?touch = "BoardsTouch [(''updated_at'', Str ''2025-01-01T00:00:00.000Z'')] ''A''"
  let ?w1 = "?w\<lparr>log := [TasksUpdate ?patch ''t2'']\<rparr>"
  let ?w2 = "?w\<lparr>log := [TasksUpdate ?patch ''t2'', ColumnsSelectBoardId ''todo'']\<rparr>"
  let ?w3 = "?w\<lparr>log := [TasksUpdate ?patch ''t2'', ColumnsSelectBoardId ''todo'', ?touch]\<rparr>"
  have e1: "query asTask (TasksUpdate (editPatch ?p (toISOString_now ?w)) (p_taskId ?p)) ?w
              = (Inr ?t, ?w1)"
    by (simp add: run_defs touchFails_def editPatch_def assign_def spread_def)
  have e2: "getBoardIdByColumnId (t_column_id ?t) ?w1 = (Inr ''A'', ?w2)"
    by (simp add: run_defs touchFails_def mkTask_def)
  have e3: "touchBoard ''A'' ?w2 = (Inl (JsError ''touch failed''), ?w3)"
    by (simp add: run_defs touchFails_def)
  have edit: "taskService_editTaskInColumn ?p ?w = (Inl (JsError ''touch failed''), ?w3)"
    using touch_failure_rejects_without_rollback
            [where params = ?p and w = ?w and updated = ?t and ?w1.0 = ?w1 and bid = "''A''"
               and ?w2.0 = ?w2 and err = "JsError ''touch failed''" and ?w3.0 = ?w3]
          e1 e2 e3
    by blast
  let ?d = "mkTask ''t2'' ''todo'' ''Review'' 1"
  let ?v = "touchFails (TaskRow ?d)"
  let ?v1 = "?v\<lparr>log := [TasksDelete ''t2'']\<rparr>"
  let ?v2 = "?v\<lparr>log := [TasksDelete ''t2'', ColumnsSelectBoardId ''todo'']\<rparr>"
  let ?v3 = "?v\<lparr>log := [TasksDelete ''t2'', ColumnsSelectBoardId ''todo'', ?touch]\<rparr>"
  have d1: "query asTask (TasksDelete ''t2'') ?v = (Inr ?d, ?v1)"
    by (simp add: run_defs touchFails_def)
  have d2: "getBoardIdByColumnId (t_column_id ?d) ?v1 = (Inr ''A'', ?v2)"
    by (simp add: run_defs touchFails_def mkTask_def)
  have d3: "touchBoard ''A'' ?v2 = (Inl (JsError ''touch failed''), ?v3)"
    by (simp add: run_defs touchFails_def)
  have del: "taskService_deleteTask ''t2'' ?v = (Inl (JsError ''touch failed''), ?v3)"
    using touch_failure_rejects_without_rollback
            [where tid = "''t2''" and w = ?v and deleted = ?d and ?w1.0 = ?v1 and bid = "''A''"
               and ?w2.0 = ?v2 and err = "JsError ''touch failed''" and ?w3.0 = ?v3]
          d1 d2 d3
    by blast
  let ?c = "mkColumn ''todo'' ''Backlog'' 0"
  let ?u = "scripted [ColumnRow ?c, Failed (JsError ''touch failed'')]"
  let ?u1 = "?u\<lparr>log := [ColumnsUpdate [(''title'', Str ''Backlog'')] ''todo'']\<rparr>"
  let ?u3 = "?u\<lparr>log := [ColumnsUpdate [(''title'', Str ''Backlog'')] ''todo'', ?touch]\<rparr>"
  have c1: "query asColumn (ColumnsUpdate [(''title'', Str ''Backlog'')] ''todo'') ?u
              = (Inr ?c, ?u1)"
    by (simp add: run_defs)
  have c3: "touchBoard (c_board_id ?c) ?u1 = (Inl (JsError ''touch failed''), ?u3)"
    by (simp add: run_defs mkColumn_def)
  have col: "columnService_updateColumnTitle ''todo'' ''Backlog'' ?u
              = (Inl (JsError ''touch failed''), ?u3)"
    using touch_failure_rejects_without_rollback
            [where cid = "''todo''" and title = "''Backlog''" and w = ?u and col = ?c
               and ?w1.0 = ?u1 and err = "JsError ''touch failed''" and ?w3.0 = ?u3]
          c1 c3
    by blast
  show ?thesis using edit del col by simp
qed

text \<open>
  The claim as stated fails: the store accepts the update of task \<open>t2\<close> and answers with
  the row, the touch fails, and \<open>taskService.updateTask\<close> rejects; the hook's
  \<open>updateTask\<close> then reports the failure in the error slot and returns \<^verbatim>\<open>undefined\<close>.
\<close>

theorem touch_failure_counterexample:
  "fst (taskService_updateTask ''t2'' [(''title'', Str ''Check'')]
          (touchFails (TaskRow (mkTask ''t2'' ''todo'' ''Check'' 1))))
     = Inl (JsError ''touch failed'')
   \<and> fst (updateTask readyCtx ''t2'' [(''title'', Str ''Check'')]
          (boardView, touchFails (TaskRow (mkTask ''t2'' ''todo'' ''Check'' 1))))
     = Inr None
   \<and> error (fst (snd (updateTask readyCtx ''t2'' [(''title'', Str ''Check'')]
          (boardView, touchFails (TaskRow (mkTask ''t2'' ''todo'' ''Check'' 1))))))
     = Some ''touch failed''"
  by (simp add: run_defs touchFails_def updateTask_def readyCtx_def errorMessage_def
        sanitizeTaskUpdates_def editPatch_def assign_def spread_def)

subsection \<open>The controller boundary\<close>





subsection \<open>Sanitised task updates\<close>

lemma map_of_assign: "map_of (assign key v out) = (map_of out)(key \<mapsto> v)"
  by (simp add: assign_def update_conv')

lemma map_of_spread:
  "distinct (map fst src) \<Longrightarrow> map_of (spread out src) = map_of out ++ map_of src"
proof (induction src arbitrary: out)
  case Nil
  then show ?case by (simp add: spread_def)
next
  case (Cons e src)
  obtain k v where e: "e = (k, v)" by (cases e)
  from Cons.prems have d: "distinct (map fst src)" and fresh: "map_of src k = None"
    by (auto simp: e map_of_eq_None_iff)
  have "map_of (spread out (e # src)) = map_of (spread (assign k v out) src)"
    by (simp add: spread_def e)
  also have "\<dots> = map_of (assign k v out) ++ map_of src"
    by (rule Cons.IH [OF d])
  also have "\<dots> = map_of out ++ map_of (e # src)"
    using fresh by (auto simp: e map_of_assign fun_eq_iff map_add_def split: option.splits)
  finally show ?case .
qed

lemma distinct_sanitize:
  "distinct (map fst out) \<Longrightarrow> distinct (map fst (fold sanitizeStep upd out))"
proof (induction upd arbitrary: out)
  case Nil
  then show ?case by simp
next
  case (Cons e upd)
  obtain k v where e: "e = (k, v)" by (cases e)
  have "distinct (map fst (sanitizeStep e out))"
    using Cons.prems by (simp add: e assign_def distinct_update)
  from Cons.IH [OF this] show ?case by simp
qed

lemma hasOwn_dom: "hasOwn out key = (key \<in> dom (map_of out))"
  by (simp add: hasOwn_def dom_map_of_conv_image_fst)

lemma getProp_Some: "map_of out key = Some v \<Longrightarrow> getProp out key = v"
  by (simp add: getProp_def)

lemma sanitize_untouched:
  "\<forall>v. (key, v) \<in> set upd \<longrightarrow> v = Undefined \<Longrightarrow>
   map_of (fold sanitizeStep upd out) key = map_of out key"
proof (induction upd arbitrary: out)
  case Nil
  then show ?case by simp
next
  case (Cons e upd)
  obtain k v where e: "e = (k, v)" by (cases e)
  have later: "\<forall>v. (key, v) \<in> set upd \<longrightarrow> v = Undefined" using Cons.prems by auto
  have "k = key \<Longrightarrow> v = Undefined" using Cons.prems e by auto
  then have "map_of (sanitizeStep e out) key = map_of out key"
    by (auto simp: e map_of_assign)
  then show ?case using Cons.IH [OF later, of "sanitizeStep e out"] by simp
qed

lemma sanitize_never_blank:
  "isTextKey key \<Longrightarrow> map_of out key \<noteq> Some (Str []) \<Longrightarrow>
   map_of (fold sanitizeStep upd out) key \<noteq> Some (Str [])"
proof (induction upd arbitrary: out)
  case Nil
  then show ?case by simp
next
  case (Cons e upd)
  obtain k v where e: "e = (k, v)" by (cases e)
  have "map_of (sanitizeStep e out) key \<noteq> Some (Str [])"
    using Cons.prems by (auto simp: e map_of_assign isTextKey_def)
  from Cons.IH [OF Cons.prems(1) this] show ?case by simp
qed

lemma sanitize_value:
  assumes "distinct (map fst upd)" and "(key, v) \<in> set upd" and "v \<noteq> Undefined"
  shows "map_of (fold sanitizeStep upd out) key
           = Some (if isTextKey key \<and> v = Str [] then Null else v)"
  using assms
proof (induction upd arbitrary: out)
  case Nil
  then show ?case by simp
next
  case (Cons e upd)
  obtain k u where e: "e = (k, u)" by (cases e)
  show ?case
  proof (cases "(key, v) \<in> set upd")
    case True
    from Cons.prems(1) have "distinct (map fst upd)" by simp
    from Cons.IH [OF this True Cons.prems(3)] show ?thesis by simp
  next
    case False
    then have here: "k = key" "u = v" using Cons.prems(2) e by auto
    have "key \<notin> fst ` set upd" using Cons.prems(1) e here by auto
    then have "\<forall>v. (key, v) \<in> set upd \<longrightarrow> v = Undefined" by force
    from sanitize_untouched [OF this, of "sanitizeStep e out"]
    have "map_of (fold sanitizeStep (e # upd) out) key = map_of (sanitizeStep e out) key"
      by simp
    also have "\<dots> = Some (if isTextKey key \<and> v = Str [] then Null else v)"
      using Cons.prems(3) by (auto simp: e here map_of_assign isTextKey_def)
    finally show ?thesis .
  qed
qed

lemma map_of_storePayload:
  "map_of (storePayload tid upd nowIso)
     = (map_of (sanitizeTaskUpdates upd))(''updated_at'' \<mapsto> Str nowIso)"
  by (simp add: storePayload_def editPatch_def map_of_assign map_of_spread
        sanitizeTaskUpdates_def distinct_sanitize)

lemma updateTask_sends_payload:
  assumes "supabase cx"
  shows "\<exists>rest. log (snd (snd (updateTask cx tid upd (st, w))))
           = log w @ TasksUpdate (storePayload tid upd (toISOString_now w)) tid # rest"
  using assms
  by (auto simp: updateTask_def taskService_updateTask_def taskService_editTaskInColumn_def
        storePayload_def editPatch_def await_def resolve_def query_def send_def
        getBoardIdByColumnId_def touchBoard_def Let_def
      split: prod.splits sum.splits)

text \<open>
  Claim C5, as the code has it. An update object has distinct keys. With the store handle
  present, the first request \<open>updateTask\<close> sends is the task update carrying
  \<open>storePayload\<close>. In that payload no text key (description, assignee, due date) is the
  empty string, a text key that is the empty string in the update is \<^verbatim>\<open>null\<close>, and a
  key that is \<^verbatim>\<open>undefined\<close> in the update is absent, so the store does not touch it.
  The one exception is \<^verbatim>\<open>updated_at\<close>: \<open>editTaskInColumn\<close> sets it to the current time
  in every payload, whatever the update says.
\<close>

theorem updateTask_payload_sanitized:
  assumes ready: "supabase cx"
    and keys: "distinct (map fst upd)"
  shows "(\<exists>rest. log (snd (snd (updateTask cx tid upd (st, w))))
            = log w @ TasksUpdate (storePayload tid upd (toISOString_now w)) tid # rest)
       \<and> (\<forall>key. isTextKey key \<longrightarrow>
              getProp (storePayload tid upd (toISOString_now w)) key \<noteq> Str [])
       \<and> (\<forall>key. isTextKey key \<and> (key, Str []) \<in> set upd \<longrightarrow>
              getProp (storePayload tid upd (toISOString_now w)) key = Null)
       \<and> (\<forall>key. (key, Undefined) \<in> set upd \<and> key \<noteq> ''updated_at'' \<longrightarrow>
              \<not> hasOwn (storePayload tid upd (toISOString_now w)) key)
       \<and> getProp (storePayload tid upd (toISOString_now w)) ''updated_at''
            = Str (toISOString_now w)"
proof (intro conjI allI impI)
  let ?payload = "storePayload tid upd (toISOString_now w)"
  show "\<exists>rest. log (snd (snd (updateTask cx tid upd (st, w))))
            = log w @ TasksUpdate ?payload tid # rest"
    using ready by (rule updateTask_sends_payload)
  show "getProp ?payload ''updated_at'' = Str (toISOString_now w)"
    by (simp add: getProp_def map_of_storePayload)
next
  fix key
  assume tk: "isTextKey key"
  then have other: "key \<noteq> ''updated_at''" by (auto simp: isTextKey_def)
  have "map_of (sanitizeTaskUpdates upd) key \<noteq> Some (Str [])"
    unfolding sanitizeTaskUpdates_def by (rule sanitize_never_blank [OF tk]) simp
  then show "getProp (storePayload tid upd (toISOString_now w)) key \<noteq> Str []"
    using other by (auto simp: getProp_def map_of_storePayload split: option.splits)
next
  fix key
  assume "isTextKey key \<and> (key, Str []) \<in> set upd"
  then have tk: "isTextKey key" and blank: "(key, Str []) \<in> set upd" by auto
  from tk have other: "key \<noteq> ''updated_at''" by (auto simp: isTextKey_def)
  have "map_of (sanitizeTaskUpdates upd) key = Some Null"
    unfolding sanitizeTaskUpdates_def
    using sanitize_value [OF keys blank, of "[]"] tk by simp
  then show "getProp (storePayload tid upd (toISOString_now w)) key = Null"
    using other by (simp add: getProp_def map_of_storePayload)
next
  fix key
  assume "(key, Undefined) \<in> set upd \<and> key \<noteq> ''updated_at''"
  then have undef: "(key, Undefined) \<in> set upd" and other: "key \<noteq> ''updated_at''" by auto
  have "\<forall>v. (key, v) \<in> set upd \<longrightarrow> v = Undefined"
    using keys undef by (auto dest: eq_key_imp_eq_value)
  then have "map_of (sanitizeTaskUpdates upd) key = None"
    unfolding sanitizeTaskUpdates_def using sanitize_untouched [of key upd "[]"] by simp
  then show "\<not> hasOwn (storePayload tid upd (toISOString_now w)) key"
    using other by (simp add: hasOwn_dom map_of_storePayload dom_def)
qed

theorem updateTask_payload_sanitized_witness:
  "supabase readyCtx
   \<and> distinct (map fst [(''description'', Str []), (''title'', Undefined)])
   \<and> getProp (storePayload ''t2'' [(''description'', Str []), (''title'', Undefined)]
                (toISOString_now (scripted []))) ''description'' = Null
   \<and> \<not> hasOwn (storePayload ''t2'' [(''description'', Str []), (''title'', Undefined)]
                (toISOString_now (scripted []))) ''title''"
proof -
  have ready: "supabase readyCtx" by (simp add: readyCtx_def)
  have keys: "distinct (map fst [(''description'', Str []), (''title'', Undefined)])"
    by simp
  show ?thesis
    using ready keys
      updateTask_payload_sanitized [OF ready keys, of "''t2''" boardView "scripted []"]
    by (simp add: isTextKey_def)
qed

text \<open>
  The claim as stated fails for \<^verbatim>\<open>updated_at\<close>: it is \<^verbatim>\<open>undefined\<close> in the update, the
  sanitiser drops it, and the payload sent to the store still carries it, so the store
  overwrites the task's \<^verbatim>\<open>updated_at\<close>.
\<close>

theorem updateTask_payload_counterexample:
  "sanitizeTaskUpdates [(''updated_at'', Undefined)] = []
   \<and> log (snd (snd (updateTask readyCtx ''t2'' [(''updated_at'', Undefined)]
        (boardView,
         scripted [TaskRow (mkTask ''t2'' ''todo'' ''Review'' 1), BoardIdOf ''A'', NoData]))))
     = [TasksUpdate [(''updated_at'', Str ''2025-01-01T00:00:00.000Z'')] ''t2'',
        ColumnsSelectBoardId ''todo'',
        BoardsTouch [(''updated_at'', Str ''2025-01-01T00:00:00.000Z'')] ''A'']"
  by (simp add: run_defs updateTask_def readyCtx_def sanitizeTaskUpdates_def editPatch_def
        assign_def spread_def mkTask_def)

subsection \<open>Restoring a board\<close>

lemma insertedTasks_append [simp]:
  "insertedTasks (qs @ rs) = insertedTasks qs @ insertedTasks rs"
  by (induction qs rule: insertedTasks.induct) auto





lemma sentInserts_query:
  "query d q w = (r, w1) \<Longrightarrow>
   sentInserts w w1 (if isInsert q then [(q, server w (log w) q)] else [])"
  by (auto simp: query_def send_def sentInserts_def)















subsection \<open>Where the code leaves the specified behaviour\<close>

text \<open>
  Claim C1 asks that a \<open>deleteBoard\<close> whose snapshot capture succeeds and whose Gateway
  delete fails leave \<open>boards\<close> and \<open>boardCounts\<close> equal to their values before the call,
  boards in the same order. The rollback puts the snapshot's board at the front of the
  list instead of its old place. Here the list is \<open>[A, B]\<close>, the store answers the three
  reads of the capture and fails the delete of \<open>B\<close>: the call returns \<^verbatim>\<open>undefined\<close> with the
  error slot set and the count of \<open>B\<close> restored, but the list is now \<open>[B, A]\<close>.
\<close>

theorem deleteBoard_rollback_reorders:
  "boards twoBoards = [boardA, boardB]
   \<and> boardCounts twoBoards ''B'' = Some 2
   \<and> returned (deleteBoard readyCtx ''B'' (twoBoards, deleteFails)) = Inr None
   \<and> errorSlot (deleteBoard readyCtx ''B'' (twoBoards, deleteFails)) = Some ''offline''
   \<and> boards (fst (snd (deleteBoard readyCtx ''B'' (twoBoards, deleteFails)))) = [boardB, boardA]
   \<and> boardCounts (fst (snd (deleteBoard readyCtx ''B'' (twoBoards, deleteFails)))) ''B'' = Some 2
   \<and> log (snd (snd (deleteBoard readyCtx ''B'' (twoBoards, deleteFails))))
       = [BoardsSelectById ''B'', ColumnsSelectByBoard ''B'', TasksSelectByBoard ''B'',
          BoardsDelete ''B'']"
  by (simp add: deleteBoard_def run_defs deleteFails_def twoBoards_def readyCtx_def
        returned_def errorSlot_def errorMessage_def boardA_def boardB_def mkTask_def mkColumn_def
        withTasks_def withoutTasks_def Column.defs ColumnWithTasks.defs Let_def)

text \<open>
  Claim C4 asks that every sequence of \<open>createTask\<close>, \<open>moveTask\<close> and \<open>deleteTask\<close> on
  sorted columns leave every column sorted by sort position. \<open>createRealTask\<close> asks for
  the position \<open>length\<close> of the column's list and appends the returned task without
  sorting (\<open>moveTask\<close> and \<open>updateTask\<close> sort after their push). Here column \<open>todo\<close>
  holds \<open>t1, t2, t3\<close> at positions 0, 1, 2; the store confirms the deletes of \<open>t1\<close> and
  \<open>t2\<close> and answers the insert with the row it was sent (position 1, the length of the
  remaining list). The column ends as \<open>t3\<close> at position 2 followed by \<open>t4\<close> at position 1.
\<close>

theorem createTask_breaks_order:
  "list_all sortedByPosition (columns boardView)
   \<and> map (\<lambda>c. map (\<lambda>t. (t_id t, sortOrderOf t)) (tasks c))
        (columns (fst (run readyCtx
           [DeleteTask ''t1'', DeleteTask ''t2'', CreateTask ''todo'' newTaskData]
           (boardView, deleteTwoThenCreate))))
       = [[(''t3'', 2), (''t4'', 1)], []]
   \<and> \<not> list_all sortedByPosition
        (columns (fst (run readyCtx
           [DeleteTask ''t1'', DeleteTask ''t2'', CreateTask ''todo'' newTaskData]
           (boardView, deleteTwoThenCreate))))
   \<and> insertedTasks (log (snd (run readyCtx
           [DeleteTask ''t1'', DeleteTask ''t2'', CreateTask ''todo'' newTaskData]
           (boardView, deleteTwoThenCreate))))
       = [\<lparr>ti_title = ''Deploy'', ti_description = None, ti_assignee = None,
           ti_due_date = None, ti_priority = Medium, ti_sort_order = 1,
           ti_column_id = ''todo''\<rparr>]"
  by (simp add: run_def deleteTask_def createRealTask_def run_defs deleteTwoThenCreate_def
        boardView_def threeTasks_def readyCtx_def newTaskData_def taskPayload_def
        nextSortOrder_def sortedByPosition_def sortOrderOf_def mkTask_def mkColumn_def
        withTasks_def Column.defs ColumnWithTasks.defs Let_def)

text \<open>
  Claim C8 asks that a successful \<open>restoreBoard\<close> set the recreated board's task count to
  the number of tasks it recreated, without the skipped ones. The count is the length of
  the snapshot's task list. Here the snapshot has three tasks, one of them in a column
  that is not among the snapshot's columns: two task rows are inserted and the count of
  the recreated board \<open>n\<close> is 3.
\<close>

theorem restoreBoard_counts_skipped_tasks:
  "length (snap_tasks orphanSnapshot) = 3
   \<and> returned (restoreBoard readyCtx orphanSnapshot (twoBoards, echoWorld))
       = Inr (Some \<lparr>b_id = ''n'', b_title = ''Alpha'', b_description = None,
                     b_color = ''bg-blue-500'', b_user_id = ''u1'',
                     b_created_at = ''2025-01-01T00:00:00.000Z'',
                     b_updated_at = ''2025-01-01T00:00:00.000Z''\<rparr>)
   \<and> boardCounts (fst (snd (restoreBoard readyCtx orphanSnapshot (twoBoards, echoWorld)))) ''n''
       = Some 3
   \<and> map ti_title (insertedTasks (log (snd (snd (restoreBoard readyCtx orphanSnapshot
        (twoBoards, echoWorld)))))) = [''Write'', ''Review'']"
  by (simp add: restoreBoard_def recreate_def run_defs echoWorld_def orphanSnapshot_def
        twoBoards_def readyCtx_def returned_def boardA_def mkTask_def mkColumn_def
        recreatedTask_def sortOrderOf_def sortOrderOfColumn_def freshId_def)

end
